theory Spec2Isabelle
  imports Complex_Main
begin

section \<open>The student dashboard analysis script\<close>

text \<open>
  The program is one Python script, \<^verbatim>\<open>analysis.py\<close>. It draws the raw metrics of the
  students, derives an assessment score, scales five features, clusters them into three
  groups, names each group and exports the table as a list of records.

  Floating point numbers are modelled as \<^typ>\<open>real\<close>, Python integers as \<^typ>\<open>int\<close>.
  The draws of the random number generator (lines 10 to 19 and the noise of line 25)
  are inputs of the model.
\<close>

subsection \<open>The assessment score (lines 21 to 27)\<close>

text \<open>The dictionary \<^verbatim>\<open>weights\<close> of line 21; the script reads it at its four keys only.\<close>

definition weights :: "string \<Rightarrow> real" where
  "weights k =
     (if k = ''comprehension'' then 3 / 10
      else if k = ''attention'' then 2 / 10
      else if k = ''focus'' then 25 / 100
      else if k = ''retention'' then 15 / 100
      else 0)"

text \<open>Lines 22 to 26, for one student; \<open>noise\<close> is the draw of \<^verbatim>\<open>np.random.normal(0, 5)\<close>.\<close>

definition score_raw :: "int \<Rightarrow> int \<Rightarrow> int \<Rightarrow> int \<Rightarrow> real \<Rightarrow> real \<Rightarrow> real" where
  "score_raw comprehension attention focus retention engagement_time noise =
     of_int comprehension * weights ''comprehension'' + of_int attention * weights ''attention'' +
     of_int focus * weights ''focus'' + of_int retention * weights ''retention'' +
     engagement_time * (25 / 10) + noise"

text \<open>\<^verbatim>\<open>ndarray.round(0)\<close>: to the nearest integer, a half to the even neighbour.\<close>

definition round_half_even :: "real \<Rightarrow> int" where
  "round_half_even x =
     (let f = \<lfloor>x\<rfloor>; d = x - of_int f in
      if d < 1 / 2 then f
      else if 1 / 2 < d then f + 1
      else if even f then f else f + 1)"

definition np_round :: "real \<Rightarrow> real" where
  "np_round x = of_int (round_half_even x)"

text \<open>\<^verbatim>\<open>np.clip(a, a_min, a_max)\<close> is \<^verbatim>\<open>minimum(a_max, maximum(a, a_min))\<close>.\<close>

definition np_clip :: "real \<Rightarrow> real \<Rightarrow> real \<Rightarrow> real" where
  "np_clip a a_min a_max = min a_max (max a a_min)"

text \<open>\<^verbatim>\<open>astype(int)\<close> drops the fractional part, towards zero.\<close>

definition astype_int :: "real \<Rightarrow> int" where
  "astype_int x = (if 0 \<le> x then \<lfloor>x\<rfloor> else \<lceil>x\<rceil>)"

text \<open>Line 27.\<close>

definition assessment_score :: "real \<Rightarrow> int" where
  "assessment_score raw = astype_int (np_clip (np_round raw) 0 100)"

subsection \<open>Data frames\<close>

text \<open>
  A pandas \<^verbatim>\<open>DataFrame\<close> is a list of named columns, in the order of their creation,
  every column one cell per row. \<open>NaN\<close> is the missing value.
\<close>

datatype cell = IntCell int | FloatCell real | StrCell string | NaN

type_synonym column = "cell list"

type_synonym DataFrame = "(string \<times> column) list"

text \<open>The exceptions the script can meet: a missing column, and a value or shape that does not fit.\<close>

datatype error = KeyError "string list" | ValueError

definition nrows :: "DataFrame \<Rightarrow> nat" where
  "nrows df = (case df of [] \<Rightarrow> 0 | (_, col) # _ \<Rightarrow> length col)"

text \<open>
  \<^verbatim>\<open>pd.DataFrame({...})\<close> from a dictionary of arrays: the arrays must have one length.
\<close>

definition frame_ok :: "DataFrame \<Rightarrow> bool" where
  "frame_ok df = list_all (\<lambda>(_, col). length col = nrows df) df"

definition DataFrame_of_dict :: "(string \<times> column) list \<Rightarrow> error + DataFrame" where
  "DataFrame_of_dict d = (if frame_ok d then Inr d else Inl ValueError)"

text \<open>\<^verbatim>\<open>df[names]\<close> with a list of names: a name that is no column raises \<^verbatim>\<open>KeyError\<close>.\<close>

definition getitem_list :: "DataFrame \<Rightarrow> string list \<Rightarrow> error + DataFrame" where
  "getitem_list df names =
     (let missing = filter (\<lambda>c. map_of df c = None) names in
      if missing \<noteq> [] then Inl (KeyError missing)
      else Inr (map (\<lambda>c. (c, case map_of df c of Some col \<Rightarrow> col | None \<Rightarrow> [])) names))"

text \<open>\<^verbatim>\<open>df[name]\<close> with one name.\<close>

definition getitem :: "DataFrame \<Rightarrow> string \<Rightarrow> error + column" where
  "getitem df c = (case map_of df c of None \<Rightarrow> Inl (KeyError [c]) | Some col \<Rightarrow> Inr col)"

text \<open>
  \<^verbatim>\<open>df[name] = values\<close>: the values must be one per row; an existing column is replaced
  where it stands, a new one is added last.
\<close>

definition setitem :: "DataFrame \<Rightarrow> string \<Rightarrow> column \<Rightarrow> error + DataFrame" where
  "setitem df c col =
     (if df \<noteq> [] \<and> length col \<noteq> nrows df then Inl ValueError
      else if map_of df c = None then Inr (df @ [(c, col)])
      else Inr (map (\<lambda>(k, v). if k = c then (k, col) else (k, v)) df))"

text \<open>\<^verbatim>\<open>series.map(d)\<close> with a dictionary \<open>d\<close>: a value that is no key of \<open>d\<close> becomes \<open>NaN\<close>.\<close>

definition series_map :: "column \<Rightarrow> (int \<rightharpoonup> string) \<Rightarrow> column" where
  "series_map col d =
     map (\<lambda>v. case v of
                IntCell i \<Rightarrow> (case d i of Some s \<Rightarrow> StrCell s | None \<Rightarrow> NaN)
              | _ \<Rightarrow> NaN) col"

text \<open>\<^verbatim>\<open>df.drop(columns=names)\<close>: a name that is no column raises \<^verbatim>\<open>KeyError\<close>.\<close>

definition drop_columns :: "DataFrame \<Rightarrow> string list \<Rightarrow> error + DataFrame" where
  "drop_columns df names =
     (let missing = filter (\<lambda>c. map_of df c = None) names in
      if missing \<noteq> [] then Inl (KeyError missing)
      else Inr (filter (\<lambda>(k, _). k \<notin> set names) df))"

text \<open>
  \<^verbatim>\<open>to_json(orient='records')\<close> writes one object per row, in the order of the rows, with
  the columns as its fields, in their order. The model stops at this list of records.
\<close>

type_synonym json_record = "(string \<times> cell) list"

definition to_records :: "DataFrame \<Rightarrow> json_record list" where
  "to_records df = map (\<lambda>i. map (\<lambda>(k, col). (k, col ! i)) df) [0..<nrows df]"

subsection \<open>The table of the students (lines 29 to 34)\<close>

text \<open>
  One row of what lines 12 to 19 and line 25 produce: every array there has
  \<^verbatim>\<open>num_students\<close> entries, so the arrays are one list of rows.
\<close>

record source_row =
  student_id :: string
  name :: string
  class_label :: string
  comprehension :: int
  attention :: int
  focus :: int
  retention :: int
  engagement_time :: real
  noise :: real

definition row_score :: "source_row \<Rightarrow> int" where
  "row_score r =
     assessment_score
       (score_raw (comprehension r) (attention r) (focus r) (retention r)
          (engagement_time r) (noise r))"

definition make_frame :: "source_row list \<Rightarrow> DataFrame" where
  "make_frame rows =
     [(''student_id'', map (StrCell \<circ> student_id) rows),
      (''name'', map (StrCell \<circ> name) rows),
      (''class'', map (StrCell \<circ> class_label) rows),
      (''comprehension'', map (IntCell \<circ> comprehension) rows),
      (''attention'', map (IntCell \<circ> attention) rows),
      (''focus'', map (IntCell \<circ> focus) rows),
      (''retention'', map (IntCell \<circ> retention) rows),
      (''assessment_score'', map (IntCell \<circ> row_score) rows),
      (''engagement_time'', map (FloatCell \<circ> engagement_time) rows)]"

subsection \<open>Scaling the features (lines 37 to 39)\<close>

definition clustering_features :: "string list" where
  "clustering_features =
     [''comprehension'', ''attention'', ''focus'', ''retention'', ''engagement_time'']"

type_synonym vec = "real list"

text \<open>The conversion of a table to an array of floats: a string or a missing value does not convert.\<close>

fun as_float :: "cell \<Rightarrow> real option" where
  "as_float (IntCell i) = Some (of_int i)"
| "as_float (FloatCell x) = Some x"
| "as_float (StrCell s) = None"
| "as_float NaN = None"

definition float_columns :: "DataFrame \<Rightarrow> error + real list list" where
  "float_columns X =
     (case those (map (\<lambda>(_, col). those (map as_float col)) X) of
        None \<Rightarrow> Inl ValueError
      | Some cols \<Rightarrow> Inr cols)"

definition rows_of :: "nat \<Rightarrow> real list list \<Rightarrow> vec list" where
  "rows_of n cols = map (\<lambda>i. map (\<lambda>col. col ! i) cols) [0..<n]"

text \<open>
  Modelled from the spec: \<^verbatim>\<open>MinMaxScaler.fit_transform\<close> is a routine of scikit-learn,
  which is not among the sources. Section 4.1 of the specification: every feature is
  rescaled with the least and the greatest value it takes over all records,
  \<open>(value - min) / (max - min)\<close>, and a feature with \<open>max = min\<close> becomes 0 on every
  record.
\<close>

definition minmax_column :: "real list \<Rightarrow> real list" where
  "minmax_column col =
     (case col of
        [] \<Rightarrow> []
      | x # xs \<Rightarrow>
          (let min_f = fold min xs x; max_f = fold max xs x in
           map (\<lambda>v. if max_f = min_f then 0 else (v - min_f) / (max_f - min_f)) col))"

definition fit_transform :: "DataFrame \<Rightarrow> error + vec list" where
  "fit_transform X =
     (case float_columns X of
        Inl e \<Rightarrow> Inl e
      | Inr cols \<Rightarrow> Inr (rows_of (nrows X) (map minmax_column cols)))"

subsection \<open>The clusterer (lines 40 and 41)\<close>

text \<open>
  Modelled from the spec: \<^verbatim>\<open>KMeans.fit_predict\<close> is a routine of scikit-learn, which is
  not among the sources. Section 4.2 of the specification: from K initial centroids,
  repeat: assign every vector to its nearest centroid by Euclidean distance, a tie going
  to the lowest index; recompute every centroid as the mean of the vectors assigned to
  it, an empty cluster keeping its centroid; stop when no assignment changes or when the
  iteration bound is reached.
\<close>

definition sq_dist :: "vec \<Rightarrow> vec \<Rightarrow> real" where
  "sq_dist x c = (\<Sum>(a, b)\<leftarrow>zip x c. (a - b)\<^sup>2)"


text \<open>The index of the least entry, the first one among equals.\<close>

fun argmin :: "real list \<Rightarrow> nat" where
  "argmin [] = 0"
| "argmin [d] = 0"
| "argmin (d # e # ds) = (let j = argmin (e # ds) in if d \<le> (e # ds) ! j then 0 else Suc j)"

text \<open>Distances are compared by their squares.\<close>

definition nearest :: "vec list \<Rightarrow> vec \<Rightarrow> nat" where
  "nearest cs x = argmin (map (sq_dist x) cs)"

definition assign_all :: "vec list \<Rightarrow> vec list \<Rightarrow> nat list" where
  "assign_all cs xs = map (nearest cs) xs"

definition members :: "vec list \<Rightarrow> 'a list \<Rightarrow> 'a \<Rightarrow> vec list" where
  "members xs labels k = map fst (filter (\<lambda>(x, l). l = k) (zip xs labels))"

definition mean_vec :: "nat \<Rightarrow> vec list \<Rightarrow> vec" where
  "mean_vec d vs = map (\<lambda>j. (\<Sum>v\<leftarrow>vs. v ! j) / real (length vs)) [0..<d]"

definition recompute :: "vec list \<Rightarrow> nat list \<Rightarrow> vec list \<Rightarrow> vec list" where
  "recompute xs labels cs =
     map (\<lambda>k. let m = members xs labels k in
               if m = [] then cs ! k else mean_vec (length (cs ! k)) m)
       [0..<length cs]"

definition lloyd_step :: "vec list \<Rightarrow> vec list \<Rightarrow> nat list \<times> vec list" where
  "lloyd_step xs cs = (let labels = assign_all cs xs in (labels, recompute xs labels cs))"

text \<open>
  The iterations after the first: \<open>labels\<close> and \<open>cs\<close> are the assignment and the
  centroids of the iteration before. The flag of the result says whether the loop stopped
  because no assignment changed.
\<close>

fun refine :: "nat \<Rightarrow> vec list \<Rightarrow> nat list \<Rightarrow> vec list \<Rightarrow> nat list \<times> vec list \<times> bool" where
  "refine 0 xs labels cs = (labels, cs, False)"
| "refine (Suc n) xs labels cs =
     (case lloyd_step xs cs of
        (labels', cs') \<Rightarrow>
          if labels' = labels then (labels', cs', True) else refine n xs labels' cs')"

text \<open>The first iteration always runs: before it no vector has an assignment.\<close>

definition lloyd :: "vec list \<Rightarrow> nat \<Rightarrow> vec list \<Rightarrow> nat list \<times> vec list \<times> bool" where
  "lloyd init max_iter xs =
     (case lloyd_step xs init of (labels, cs) \<Rightarrow> refine (max_iter - 1) xs labels cs)"

definition cluster_assign :: "vec list \<Rightarrow> nat \<Rightarrow> vec list \<Rightarrow> nat list" where
  "cluster_assign init max_iter xs = fst (lloyd init max_iter xs)"


text \<open>
  Modelled from the spec: the call \<^verbatim>\<open>KMeans(n_clusters=3, random_state=42, n_init=10)\<close>
  of line 40 runs code of scikit-learn, which is not among the sources. Section 4.2 of the
  specification: K centroids are initialised as a function of the seed and of the
  vectors. The parameters of the call are read as scikit-learn documents them.
  \<open>n_init\<close>: the refinement runs that many times, each time from centroids that
  \<open>init\<close> draws with the random generator, and the run of least inertia is kept, the
  first one among equals; an initialisation that does not give \<open>n_clusters\<close> centroids
  is an error, which is checked on the runs, a refinement keeping the number of its
  centroids. \<open>random_state\<close>: a number seeds a generator of the call's own
  (\<open>seed_state\<close>), and the global generator \<open>g\<close> of numpy is left as it is; without a
  number the draws come from \<open>g\<close>. The initialisation \<open>init\<close> is a function of the
  state of the generator, the number of clusters and the vectors.
\<close>

definition inertia :: "vec list \<Rightarrow> nat list \<times> vec list \<times> bool \<Rightarrow> real" where
  "inertia xs run = (case run of (labels, cs, _) \<Rightarrow> (\<Sum>(x, l)\<leftarrow>zip xs labels. sq_dist x (cs ! l)))"

fun restarts ::
  "('g \<Rightarrow> nat \<Rightarrow> vec list \<Rightarrow> vec list \<times> 'g) \<Rightarrow> nat \<Rightarrow> nat \<Rightarrow> nat \<Rightarrow> 'g \<Rightarrow> vec list \<Rightarrow>
   (nat list \<times> vec list \<times> bool) list \<times> 'g" where
  "restarts init k max_iter 0 g xs = ([], g)"
| "restarts init k max_iter (Suc n) g xs =
     (case init g k xs of
        (cs, g') \<Rightarrow>
          (case restarts init k max_iter n g' xs of
             (runs, g'') \<Rightarrow> (lloyd cs max_iter xs # runs, g'')))"

fun best_run :: "vec list \<Rightarrow> (nat list \<times> vec list \<times> bool) list \<Rightarrow> (nat list \<times> vec list \<times> bool) option" where
  "best_run xs [] = None"
| "best_run xs (r # rs) =
     (case best_run xs rs of
        None \<Rightarrow> Some r
      | Some b \<Rightarrow> if inertia xs r \<le> inertia xs b then Some r else Some b)"

definition predict :: "nat \<Rightarrow> vec list \<Rightarrow> (nat list \<times> vec list \<times> bool) list \<Rightarrow> error + int list" where
  "predict k xs runs =
     (if list_all (\<lambda>(labels, cs, converged). length cs = k) runs
      then (case best_run xs runs of
              None \<Rightarrow> Inl ValueError
            | Some (labels, cs, _) \<Rightarrow> Inr (map int labels))
      else Inl ValueError)"

definition KMeans_fit_predict ::
  "('g \<Rightarrow> nat \<Rightarrow> vec list \<Rightarrow> vec list \<times> 'g) \<Rightarrow> (nat \<Rightarrow> 'g) \<Rightarrow> nat \<Rightarrow>
   nat \<Rightarrow> nat option \<Rightarrow> nat \<Rightarrow> 'g \<Rightarrow> vec list \<Rightarrow> (error + int list) \<times> 'g" where
  "KMeans_fit_predict init seed_state max_iter n_clusters random_state n_init g X =
     (case random_state of
        None \<Rightarrow>
          (case restarts init n_clusters max_iter n_init g X of
             (runs, g') \<Rightarrow> (predict n_clusters X runs, g'))
      | Some s \<Rightarrow>
          (case restarts init n_clusters max_iter n_init (seed_state s) X of
             (runs, _) \<Rightarrow> (predict n_clusters X runs, g)))"

subsection \<open>Naming the clusters and the export (lines 41 to 52)\<close>

definition persona_names :: "int \<rightharpoonup> string" where
  "persona_names =
     [0 \<mapsto> ''Balanced Average'', 1 \<mapsto> ''High-Skill Achiever'', 2 \<mapsto> ''Low Engagement/Struggler'']"

text \<open>Lines 38 and 39: the features are selected and scaled.\<close>

definition df_scaled :: "DataFrame \<Rightarrow> error + vec list" where
  "df_scaled df =
     (case getitem_list df clustering_features of
        Inl e \<Rightarrow> Inl e
      | Inr X \<Rightarrow> fit_transform X)"

text \<open>
  Line 41: the clusterer \<open>fit_predict\<close> gives one cluster index per row, and the indices
  become the column \<^verbatim>\<open>persona_cluster\<close>.
\<close>

definition cluster_labels :: "(vec list \<Rightarrow> error + int list) \<Rightarrow> DataFrame \<Rightarrow> error + int list" where
  "cluster_labels fit_predict df =
     (case df_scaled df of
        Inl e \<Rightarrow> Inl e
      | Inr X \<Rightarrow> fit_predict X)"

definition cluster_stage :: "(vec list \<Rightarrow> error + int list) \<Rightarrow> DataFrame \<Rightarrow> error + DataFrame" where
  "cluster_stage fit_predict df =
     (case cluster_labels fit_predict df of
        Inl e \<Rightarrow> Inl e
      | Inr labels \<Rightarrow> setitem df ''persona_cluster'' (map IntCell labels))"

text \<open>Lines 43 and 44.\<close>

definition label_stage :: "DataFrame \<Rightarrow> error + DataFrame" where
  "label_stage df =
     (case getitem df ''persona_cluster'' of
        Inl e \<Rightarrow> Inl e
      | Inr persona_cluster \<Rightarrow> setitem df ''learning_persona'' (series_map persona_cluster persona_names))"

text \<open>Lines 51 and 52.\<close>

definition export :: "DataFrame \<Rightarrow> error + json_record list" where
  "export df =
     (case drop_columns df [''persona_cluster''] of
        Inl e \<Rightarrow> Inl e
      | Inr df_output \<Rightarrow> Inr (to_records df_output))"

text \<open>Lines 37 to 44: the table with the cluster index and the persona of every row.\<close>

definition enrich :: "(vec list \<Rightarrow> error + int list) \<Rightarrow> DataFrame \<Rightarrow> error + DataFrame" where
  "enrich fit_predict df =
     (case cluster_stage fit_predict df of
        Inl e \<Rightarrow> Inl e
      | Inr df1 \<Rightarrow> label_stage df1)"

text \<open>Lines 37 to 52, from the table of line 29 to the exported records.\<close>

definition pipeline :: "(vec list \<Rightarrow> error + int list) \<Rightarrow> DataFrame \<Rightarrow> error + json_record list" where
  "pipeline fit_predict df =
     (case enrich fit_predict df of
        Inl e \<Rightarrow> Inl e
      | Inr df2 \<Rightarrow> export df2)"

text \<open>The whole script, from the rows of the record source.\<close>

definition analysis :: "(vec list \<Rightarrow> error + int list) \<Rightarrow> source_row list \<Rightarrow> error + json_record list" where
  "analysis fit_predict rows =
     (case DataFrame_of_dict (make_frame rows) of
        Inl e \<Rightarrow> Inl e
      | Inr df \<Rightarrow> pipeline fit_predict df)"

subsection \<open>The labelling policy and the output schema of the specification\<close>

text \<open>
  Section 4.3 of the specification, for comparison with \<open>persona_names\<close>: the composite
  score of a cluster is the mean of the scaled features of its centroid, the centroid being
  the mean of the vectors of the cluster; the cluster of the highest composite score is
  \<^verbatim>\<open>High-Skill Achiever\<close>, the one of the lowest is \<^verbatim>\<open>Low Engagement/Struggler\<close>, the
  middle one is \<^verbatim>\<open>Balanced Average\<close>.
\<close>

definition composite :: "vec \<Rightarrow> real" where
  "composite c = sum_list c / real (length c)"

definition cluster_composite :: "vec list \<Rightarrow> int list \<Rightarrow> int \<Rightarrow> real" where
  "cluster_composite X labels k =
     composite (mean_vec (length clustering_features) (members X labels k))"

definition rank_persona :: "vec list \<Rightarrow> int list \<Rightarrow> int \<Rightarrow> string" where
  "rank_persona X labels k =
     (let others = filter (\<lambda>j. j \<noteq> k) [0, 1, 2] in
      if list_all (\<lambda>j. cluster_composite X labels j < cluster_composite X labels k) others
      then ''High-Skill Achiever''
      else if list_all (\<lambda>j. cluster_composite X labels k < cluster_composite X labels j) others
      then ''Low Engagement/Struggler''
      else ''Balanced Average'')"

text \<open>Section 6 of the specification: the fields of an exported record.\<close>

definition output_schema :: "string list" where
  "output_schema =
     [''student_id'', ''name'', ''class'', ''comprehension'', ''attention'', ''focus'',
      ''retention'', ''assessment_score'', ''engagement_time'', ''learning_persona'']"

subsection \<open>A run on six students\<close>

text \<open>
  Three pairs of students, of high, middle and low metrics. The initialisation
  \<open>first_vectors\<close> takes the first vectors of the data as centroids and draws nothing.
\<close>

definition example_rows :: "source_row list" where
  "example_rows =
     [\<lparr>student_id = ''S001'', name = ''Student_1'', class_label = ''A'', comprehension = 95,
        attention = 90, focus = 88, retention = 92, engagement_time = 37 / 2, noise = 1\<rparr>,
      \<lparr>student_id = ''S002'', name = ''Student_2'', class_label = ''B'', comprehension = 75,
        attention = 68, focus = 66, retention = 70, engagement_time = 12, noise = - 2\<rparr>,
      \<lparr>student_id = ''S003'', name = ''Student_3'', class_label = ''C'', comprehension = 52,
        attention = 42, focus = 47, retention = 41, engagement_time = 11 / 2, noise = 3\<rparr>,
      \<lparr>student_id = ''S004'', name = ''Student_4'', class_label = ''A'', comprehension = 97,
        attention = 93, focus = 85, retention = 90, engagement_time = 19, noise = 40\<rparr>,
      \<lparr>student_id = ''S005'', name = ''Student_5'', class_label = ''A'', comprehension = 73,
        attention = 65, focus = 68, retention = 66, engagement_time = 23 / 2, noise = 0\<rparr>,
      \<lparr>student_id = ''S006'', name = ''Student_6'', class_label = ''B'', comprehension = 55,
        attention = 45, focus = 50, retention = 44, engagement_time = 6, noise = - 1\<rparr>]"

definition example_vectors :: "vec list" where
  "example_vectors =
     [[43 / 45, 16 / 17, 1, 1, 26 / 27],
      [23 / 45, 26 / 51, 19 / 41, 29 / 51, 13 / 27],
      [0, 0, 0, 0, 0],
      [1, 1, 38 / 41, 49 / 51, 1],
      [7 / 15, 23 / 51, 21 / 41, 25 / 51, 4 / 9],
      [1 / 15, 1 / 17, 3 / 41, 1 / 17, 1 / 27]]"

definition first_vectors :: "unit \<Rightarrow> nat \<Rightarrow> vec list \<Rightarrow> vec list \<times> unit" where
  "first_vectors g k xs = (take k xs, g)"

definition example_clusterer :: "vec list \<Rightarrow> error + int list" where
  "example_clusterer X = fst (KMeans_fit_predict first_vectors (\<lambda>s. ()) 300 3 (Some 42) 10 () X)"

definition example_record ::
  "string \<Rightarrow> string \<Rightarrow> string \<Rightarrow> int \<Rightarrow> int \<Rightarrow> int \<Rightarrow> int \<Rightarrow> int \<Rightarrow> real \<Rightarrow> string \<Rightarrow> json_record" where
  "example_record sid nm cl com att foc ret sco eng per =
     [(''student_id'', StrCell sid), (''name'', StrCell nm), (''class'', StrCell cl),
      (''comprehension'', IntCell com), (''attention'', IntCell att), (''focus'', IntCell foc),
      (''retention'', IntCell ret), (''assessment_score'', IntCell sco),
      (''engagement_time'', FloatCell eng), (''learning_persona'', StrCell per)]"

definition example_records :: "json_record list" where
  "example_records =
     [example_record ''S001'' ''Student_1'' ''A'' 95 90 88 92 100 (37 / 2) ''Balanced Average'',
      example_record ''S002'' ''Student_2'' ''B'' 75 68 66 70 91 12 ''High-Skill Achiever'',
      example_record ''S003'' ''Student_3'' ''C'' 52 42 47 41 59 (11 / 2) ''Low Engagement/Struggler'',
      example_record ''S004'' ''Student_4'' ''A'' 97 93 85 90 100 19 ''Balanced Average'',
      example_record ''S005'' ''Student_5'' ''A'' 73 65 68 66 91 (23 / 2) ''High-Skill Achiever'',
      example_record ''S006'' ''Student_6'' ''B'' 55 45 50 44 59 6 ''Low Engagement/Struggler'']"

text \<open>
  Another initialisation: the first vectors of the data again, the first two of them
  exchanged.
\<close>

definition swapped_vectors :: "unit \<Rightarrow> nat \<Rightarrow> vec list \<Rightarrow> vec list \<times> unit" where
  "swapped_vectors g k xs =
     (case take k xs of
        a # b # cs \<Rightarrow> (b # a # cs, g)
      | cs \<Rightarrow> (cs, g))"

definition swapped_clusterer :: "vec list \<Rightarrow> error + int list" where
  "swapped_clusterer X = fst (KMeans_fit_predict swapped_vectors (\<lambda>s. ()) 300 3 (Some 42) 10 () X)"


text \<open>The table of the six students without the column \<^verbatim>\<open>focus\<close>.\<close>

definition example_without_focus :: DataFrame where
  "example_without_focus = filter (\<lambda>(k, col). k \<noteq> ''focus'') (make_frame example_rows)"

section \<open>Properties\<close>

subsection \<open>The assessment score\<close>

lemma np_round_int: "\<exists>k::int. np_round x = of_int k"
  by (simp add: np_round_def)

lemma np_clip_bounds: "a_min \<le> a_max \<Longrightarrow> a_min \<le> np_clip a a_min a_max \<and> np_clip a a_min a_max \<le> a_max"
  by (simp add: np_clip_def)

text \<open>
  The rounded raw score is clipped into the range from 0 to 100 and converted to an
  integer: a raw score outside the range gives the nearest bound.
\<close>

lemma assessment_score_clipped:
  "0 \<le> assessment_score (score_raw c a f r e z) \<and>
   assessment_score (score_raw c a f r e z) \<le> 100 \<and>
   of_int (assessment_score (score_raw c a f r e z)) =
     max 0 (min 100 (np_round (score_raw c a f r e z)))"
proof -
  define raw where "raw = score_raw c a f r e z"
  obtain k :: int where k: "np_round raw = of_int k"
    using np_round_int by blast
  have clip: "np_clip (np_round raw) 0 100 = of_int (max 0 (min 100 k))"
    by (simp add: np_clip_def k min_def max_def)
  have as: "assessment_score raw = max 0 (min 100 k)"
    unfolding assessment_score_def clip by (simp add: astype_int_def)
  have "0 \<le> assessment_score raw" "assessment_score raw \<le> 100"
    by (simp_all add: as)
  moreover have "of_int (assessment_score raw) = max 0 (min 100 (np_round raw))"
    by (simp add: as k min_def max_def)
  ultimately show ?thesis
    by (simp add: raw_def)
qed

subsection \<open>Data frames\<close>

lemma frame_ok_col: "frame_ok df \<Longrightarrow> (k, col) \<in> set df \<Longrightarrow> length col = nrows df"
  by (auto simp: frame_ok_def list_all_iff)


lemma frame_okI: "(\<And>k col. (k, col) \<in> set df \<Longrightarrow> length col = n) \<Longrightarrow> df \<noteq> [] \<Longrightarrow> frame_ok df \<and> nrows df = n"
  by (cases df) (auto simp: frame_ok_def list_all_iff nrows_def)

lemma nrows_eq: "frame_ok df \<Longrightarrow> (k, col) \<in> set df \<Longrightarrow> nrows df = length col"
  by (simp add: frame_ok_col)

lemma setitem_map_of:
  "setitem df c col = Inr df' \<Longrightarrow> map_of df' k = (if k = c then Some col else map_of df k)"
proof -
  have rep: "map_of (map (\<lambda>(k, v). if k = c then (k, col) else (k, v)) xs) k' =
      (if k' = c then map_option (\<lambda>_. col) (map_of xs k') else map_of xs k')" for xs :: DataFrame and k'
    by (induction xs) auto
  assume "setitem df c col = Inr df'"
  then show ?thesis
    by (auto simp: setitem_def rep map_add_def split: if_splits option.splits)
qed

lemma setitem_names:
  "setitem df c col = Inr df' \<Longrightarrow>
   map fst df' = (if map_of df c = None then map fst df @ [c] else map fst df)"
proof -
  have rep: "map fst (map (\<lambda>(k, v). if k = c then (k, col) else (k, v)) xs) = map fst xs" for xs :: DataFrame
    by (induction xs) auto
  assume "setitem df c col = Inr df'"
  then show ?thesis
    by (auto simp: setitem_def rep split: if_splits)
qed

lemma setitem_frame:
  assumes "setitem df c col = Inr df'" "frame_ok df" "df \<noteq> []"
  shows "frame_ok df' \<and> nrows df' = nrows df \<and> length col = nrows df \<and> df' \<noteq> []"
proof -
  from assms have len: "length col = nrows df"
    by (auto simp: setitem_def split: if_splits)
  have "\<And>k v. (k, v) \<in> set df' \<Longrightarrow> length v = nrows df"
    using assms len by (auto simp: setitem_def frame_ok_col split: if_splits)
  moreover have "df' \<noteq> []"
    using assms by (auto simp: setitem_def split: if_splits)
  ultimately show ?thesis
    using frame_okI[of df' "nrows df"] len by blast
qed

lemma drop_columns_map_of:
  "drop_columns df names = Inr df' \<Longrightarrow> map_of df' k = (if k \<in> set names then None else map_of df k)"
proof -
  have f: "map_of (filter (\<lambda>(k, _). k \<notin> set names) xs) k = (if k \<in> set names then None else map_of xs k)"
    for xs :: DataFrame
    by (induction xs) auto
  assume "drop_columns df names = Inr df'"
  then show ?thesis
    by (auto simp: drop_columns_def Let_def f split: if_splits)
qed

lemma drop_columns_names:
  "drop_columns df names = Inr df' \<Longrightarrow> map fst df' = filter (\<lambda>k. k \<notin> set names) (map fst df)"
proof -
  have f: "map fst (filter (\<lambda>(k, _). k \<notin> set names) xs) = filter (\<lambda>k. k \<notin> set names) (map fst xs)"
    for xs :: DataFrame
    by (induction xs) auto
  assume "drop_columns df names = Inr df'"
  then show ?thesis
    by (auto simp: drop_columns_def Let_def f split: if_splits)
qed

lemma drop_columns_frame:
  assumes "drop_columns df names = Inr df'" "frame_ok df" "df' \<noteq> []"
  shows "frame_ok df' \<and> nrows df' = nrows df"
proof -
  have "\<And>k v. (k, v) \<in> set df' \<Longrightarrow> length v = nrows df"
    using assms by (auto simp: drop_columns_def Let_def frame_ok_col split: if_splits)
  then show ?thesis
    using frame_okI[of df' "nrows df"] assms(3) by blast
qed

lemma to_records_length: "length (to_records df) = nrows df"
  by (simp add: to_records_def)

lemma to_records_nth: "i < nrows df \<Longrightarrow> to_records df ! i = map (\<lambda>(k, col). (k, col ! i)) df"
  by (simp add: to_records_def)

lemma map_of_row: "map_of (map (\<lambda>(k, col). (k, col ! i)) df) k = map_option (\<lambda>col. col ! i) (map_of df k)"
  by (induction df) auto

lemma names_row: "map fst (map (\<lambda>(k, col). (k, col ! i)) df) = map fst df"
  by (induction df) auto


lemma row_filter:
  "map (\<lambda>(k, col). (k, col ! i)) (filter (\<lambda>(k, _). k \<notin> set names) df) =
   filter (\<lambda>(k, v). k \<notin> set names) (map (\<lambda>(k, col). (k, col ! i)) df)"
  by (induction df) auto

lemma getitem_list_present:
  "getitem_list df names = Inr X \<Longrightarrow> c \<in> set names \<Longrightarrow> map_of df c \<noteq> None"
  by (auto simp: getitem_list_def Let_def filter_empty_conv split: if_splits)

lemma df_scaled_present:
  "df_scaled df = Inr S \<Longrightarrow> c \<in> set clustering_features \<Longrightarrow> map_of df c \<noteq> None"
  by (auto simp: df_scaled_def split: sum.splits dest: getitem_list_present)

lemma df_scaled_nonempty: "df_scaled df = Inr S \<Longrightarrow> df \<noteq> []"
  using df_scaled_present[of df S "''comprehension''"] by (auto simp: clustering_features_def)

lemma enrich_shape:
  assumes ok: "frame_ok df" and en: "enrich fit_predict df = Inr df2"
  shows "\<exists>labels. cluster_labels fit_predict df = Inr labels \<and> length labels = nrows df \<and>
           frame_ok df2 \<and> nrows df2 = nrows df \<and>
           (\<forall>c \<in> set clustering_features. map_of df c \<noteq> None) \<and>
           (\<forall>k. map_of df2 k =
              (if k = ''learning_persona'' then Some (series_map (map IntCell labels) persona_names)
               else if k = ''persona_cluster'' then Some (map IntCell labels)
               else map_of df k))"
proof -
  from en obtain df1 where c1: "cluster_stage fit_predict df = Inr df1" and l1: "label_stage df1 = Inr df2"
    by (auto simp: enrich_def split: sum.splits)
  from c1 obtain labels where lab: "cluster_labels fit_predict df = Inr labels"
      and s1: "setitem df ''persona_cluster'' (map IntCell labels) = Inr df1"
    by (auto simp: cluster_stage_def split: sum.splits)
  from lab obtain S where S: "df_scaled df = Inr S"
    by (auto simp: cluster_labels_def split: sum.splits)
  have ne: "df \<noteq> []" using S by (rule df_scaled_nonempty)
  have f1: "frame_ok df1" "nrows df1 = nrows df" "length labels = nrows df" "df1 \<noteq> []"
    using setitem_frame[OF s1 ok ne] by simp_all
  have m1: "map_of df1 k = (if k = ''persona_cluster'' then Some (map IntCell labels) else map_of df k)" for k
    using setitem_map_of[OF s1] .
  from l1 m1[of "''persona_cluster''"]
  have s2: "setitem df1 ''learning_persona'' (series_map (map IntCell labels) persona_names) = Inr df2"
    by (auto simp: label_stage_def getitem_def split: sum.splits option.splits)
  have f2: "frame_ok df2" "nrows df2 = nrows df1"
    using setitem_frame[OF s2 f1(1) f1(4)] by simp_all
  have m2: "map_of df2 k = (if k = ''learning_persona'' then Some (series_map (map IntCell labels) persona_names)
       else map_of df1 k)" for k
    using setitem_map_of[OF s2] .
  show ?thesis
    using lab f1 f2 m1 m2 df_scaled_present[OF S] by auto
qed

lemma export_shape:
  assumes ok: "frame_ok df2" and ex: "export df2 = Inr out" and other: "map_of df2 c \<noteq> None" "c \<noteq> ''persona_cluster''"
  shows "length out = nrows df2 \<and>
         (\<forall>i<nrows df2. out ! i = filter (\<lambda>(k, v). k \<noteq> ''persona_cluster'') (to_records df2 ! i))"
proof -
  from ex obtain dfo where d: "drop_columns df2 [''persona_cluster''] = Inr dfo" and out: "out = to_records dfo"
    by (auto simp: export_def split: sum.splits)
  have "map_of dfo c \<noteq> None"
    using drop_columns_map_of[OF d, of c] other by simp
  then have ne: "dfo \<noteq> []" by auto
  have fo: "frame_ok dfo" "nrows dfo = nrows df2"
    using drop_columns_frame[OF d ok ne] by simp_all
  have dfo: "dfo = filter (\<lambda>(k, _). k \<notin> set [''persona_cluster'']) df2"
    using d by (auto simp: drop_columns_def Let_def split: if_splits)
  have "out ! i = filter (\<lambda>(k, v). k \<noteq> ''persona_cluster'') (to_records df2 ! i)" if "i < nrows df2" for i
    using that fo(2) row_filter[of i "[''persona_cluster'']" df2]
    by (simp add: out to_records_nth dfo)
  then show ?thesis
    by (simp add: out to_records_length fo)
qed

subsection \<open>The run on six students\<close>

lemma refine_unfold:
  "refine n xs labels cs =
     (if n = 0 then (labels, cs, False)
      else (case lloyd_step xs cs of
              (labels', cs') \<Rightarrow>
                if labels' = labels then (labels', cs', True) else refine (n - 1) xs labels' cs'))"
  by (cases n) (simp_all split: prod.splits)

lemma restarts_unfold:
  "restarts init k max_iter n g xs =
     (if n = 0 then ([], g)
      else (case init g k xs of
              (cs, g') \<Rightarrow>
                (case restarts init k max_iter (n - 1) g' xs of
                   (runs, g'') \<Rightarrow> (lloyd cs max_iter xs # runs, g''))))"
  by (cases n) (simp_all split: prod.splits)

lemmas frame_eval = nrows_def frame_ok_def DataFrame_of_dict_def getitem_list_def getitem_def
  setitem_def series_map_def drop_columns_def to_records_def make_frame_def row_score_def
  assessment_score_def score_raw_def weights_def np_round_def round_half_even_def np_clip_def
  astype_int_def clustering_features_def float_columns_def rows_of_def minmax_column_def
  fit_transform_def persona_names_def Let_def

lemmas lloyd_eval = power2_eq_square sq_dist_def nearest_def assign_all_def members_def
  mean_vec_def recompute_def lloyd_step_def lloyd_def refine_unfold

lemma example_frame_ok: "frame_ok (make_frame example_rows)"
  by (simp add: frame_ok_def make_frame_def nrows_def)

lemma example_scaled: "df_scaled (make_frame example_rows) = Inr example_vectors"
  by (simp add: df_scaled_def frame_eval example_rows_def example_vectors_def)

lemma example_lloyd:
  "lloyd (take 3 example_vectors) 300 example_vectors =
     ([0, 1, 2, 0, 1, 2],
      [[44 / 45, 33 / 34, 79 / 82, 50 / 51, 53 / 54],
       [22 / 45, 49 / 102, 20 / 41, 9 / 17, 25 / 54],
       [1 / 30, 1 / 34, 3 / 82, 1 / 34, 1 / 54]], True)"
  by (simp add: lloyd_eval example_vectors_def)


lemma example_restarts:
  "restarts first_vectors 3 300 n () example_vectors =
     (replicate n (lloyd (take 3 example_vectors) 300 example_vectors), ())"
  by (induction n) (simp_all add: first_vectors_def)

lemma best_run_replicate: "best_run xs (replicate (Suc n) r) = Some r"
  by (induction n) simp_all

lemma example_clustered: "example_clusterer example_vectors = Inr [0, 1, 2, 0, 1, 2]"
proof -
  have "best_run example_vectors (replicate 10 (lloyd (take 3 example_vectors) 300 example_vectors)) =
      Some (lloyd (take 3 example_vectors) 300 example_vectors)"
    using best_run_replicate[of example_vectors 9] by simp
  then show ?thesis
    by (simp add: example_clusterer_def KMeans_fit_predict_def example_restarts predict_def example_lloyd list_all_iff)
qed

lemma example_labels:
  "cluster_labels example_clusterer (make_frame example_rows) = Inr [0, 1, 2, 0, 1, 2]"
  by (simp add: cluster_labels_def example_scaled example_clustered)

lemma example_pipeline:
  "pipeline example_clusterer (make_frame example_rows) = Inr example_records"
proof -
  have "cluster_stage example_clusterer (make_frame example_rows) =
      setitem (make_frame example_rows) ''persona_cluster'' (map IntCell [0, 1, 2, 0, 1, 2])"
    by (simp only: cluster_stage_def example_labels sum.case)
  then show ?thesis
    by (simp add: pipeline_def enrich_def label_stage_def export_def
        frame_eval example_rows_def example_records_def example_record_def)
qed

subsection \<open>The pipeline keeps the rows and their order\<close>

lemma pipeline_shape:
  assumes ok: "frame_ok df" and p: "pipeline fit_predict df = Inr out"
  shows "\<exists>labels df2. cluster_labels fit_predict df = Inr labels \<and> enrich fit_predict df = Inr df2 \<and>
           length labels = nrows df \<and> frame_ok df2 \<and> nrows df2 = nrows df \<and> length out = nrows df \<and>
           (\<forall>k. map_of df2 k =
              (if k = ''learning_persona'' then Some (series_map (map IntCell labels) persona_names)
               else if k = ''persona_cluster'' then Some (map IntCell labels)
               else map_of df k)) \<and>
           (\<forall>i<nrows df. out ! i = filter (\<lambda>(k, v). k \<noteq> ''persona_cluster'') (to_records df2 ! i))"
proof -
  from p obtain df2 where en: "enrich fit_predict df = Inr df2" and ex: "export df2 = Inr out"
    by (auto simp: pipeline_def split: sum.splits)
  from enrich_shape[OF ok en] obtain labels where
    lab: "cluster_labels fit_predict df = Inr labels" "length labels = nrows df"
      "frame_ok df2" "nrows df2 = nrows df"
    and m: "\<forall>k. map_of df2 k =
              (if k = ''learning_persona'' then Some (series_map (map IntCell labels) persona_names)
               else if k = ''persona_cluster'' then Some (map IntCell labels)
               else map_of df k)"
    by blast
  have "map_of df2 ''learning_persona'' \<noteq> None"
    using m by simp
  from export_shape[OF lab(3) ex this] lab en m show ?thesis
    by auto
qed

lemma record_lookup:
  assumes "i < nrows df2"
  shows "map_of (filter (\<lambda>(k, v). k \<noteq> c) (to_records df2 ! i)) k =
         (if k = c then None else map_option (\<lambda>col. col ! i) (map_of df2 k))"
proof -
  have f: "map_of (filter (\<lambda>(k, v). k \<noteq> c) xs) k = (if k = c then None else map_of xs k)"
    for xs :: json_record
    by (induction xs) auto
  show ?thesis
    using assms by (simp add: f to_records_nth map_of_row)
qed

text \<open>
  C7. Whatever the clusterer, when the pipeline exports records from a table, it exports
  one record per row of the table, in the order of the rows: record \<open>i\<close> carries, under
  every column name of the table but the two the pipeline sets, the cell of row \<open>i\<close> of
  that column. No stage reorders or drops a row.
\<close>

theorem pipeline_keeps_order:
  assumes "frame_ok df" and "pipeline fit_predict df = Inr out"
  shows "length out = nrows df \<and>
         (\<forall>i<nrows df. \<forall>k. k \<noteq> ''persona_cluster'' \<and> k \<noteq> ''learning_persona'' \<longrightarrow>
            map_of (out ! i) k = map_option (\<lambda>col. col ! i) (map_of df k))"
proof -
  from pipeline_shape[OF assms] obtain labels df2 where
    n: "nrows df2 = nrows df" "length out = nrows df"
    and m: "\<forall>k. map_of df2 k =
              (if k = ''learning_persona'' then Some (series_map (map IntCell labels) persona_names)
               else if k = ''persona_cluster'' then Some (map IntCell labels)
               else map_of df k)"
    and r: "\<forall>i<nrows df. out ! i = filter (\<lambda>(k, v). k \<noteq> ''persona_cluster'') (to_records df2 ! i)"
    by blast
  have "map_of (out ! i) k = map_option (\<lambda>col. col ! i) (map_of df k)"
    if "i < nrows df" "k \<noteq> ''persona_cluster''" "k \<noteq> ''learning_persona''" for i k
    using that r m n record_lookup[of i df2 "''persona_cluster''" k] by simp
  then show ?thesis
    using n by blast
qed

text \<open>The run on six students: the fourth record is the fourth student.\<close>

theorem pipeline_keeps_order_witness:
  "frame_ok (make_frame example_rows) \<and>
   pipeline example_clusterer (make_frame example_rows) = Inr example_records \<and>
   length example_records = nrows (make_frame example_rows) \<and>
   map_of (example_records ! 3) ''name'' =
     map_option (\<lambda>col. col ! 3) (map_of (make_frame example_rows) ''name'') \<and>
   map_of (example_records ! 3) ''name'' = Some (StrCell ''Student_4'')"
proof -
  note t = pipeline_keeps_order[OF example_frame_ok example_pipeline]
  have n: "nrows (make_frame example_rows) = 6"
    by (simp add: nrows_def make_frame_def example_rows_def)
  have "map_of (example_records ! 3) ''name'' =
     map_option (\<lambda>col. col ! 3) (map_of (make_frame example_rows) ''name'')"
    using t n by simp
  moreover have "map_of (example_records ! 3) ''name'' = Some (StrCell ''Student_4'')"
    by (simp add: example_records_def example_record_def)
  ultimately show ?thesis
    using t example_frame_ok example_pipeline by simp
qed

subsection \<open>The persona of a record\<close>

lemma persona_lookup:
  assumes ok: "frame_ok df" and p: "pipeline fit_predict df = Inr out"
    and lab: "cluster_labels fit_predict df = Inr labels" and i: "i < nrows df"
  shows "map_of (out ! i) ''learning_persona'' =
         Some (case persona_names (labels ! i) of Some s \<Rightarrow> StrCell s | None \<Rightarrow> NaN)"
proof -
  from pipeline_shape[OF ok p] lab obtain df2 where
    n: "nrows df2 = nrows df" "length labels = nrows df"
    and m: "\<forall>k. map_of df2 k =
              (if k = ''learning_persona'' then Some (series_map (map IntCell labels) persona_names)
               else if k = ''persona_cluster'' then Some (map IntCell labels)
               else map_of df k)"
    and r: "\<forall>i<nrows df. out ! i = filter (\<lambda>(k, v). k \<noteq> ''persona_cluster'') (to_records df2 ! i)"
    by auto
  have "map_of (out ! i) ''learning_persona'' = Some (series_map (map IntCell labels) persona_names ! i)"
    using r m n i record_lookup[of i df2 "''persona_cluster''" "''learning_persona''"] by simp
  then show ?thesis
    using i n by (simp add: series_map_def)
qed

lemma persona_names_cases:
  "k \<in> {0, 1, 2} \<Longrightarrow>
   persona_names k = Some (if k = 0 then ''Balanced Average''
                           else if k = 1 then ''High-Skill Achiever''
                           else ''Low Engagement/Struggler'')"
  by (auto simp: persona_names_def)

lemma setitem_succeeds:
  "df \<noteq> [] \<Longrightarrow> length col = nrows df \<Longrightarrow> \<exists>df'. setitem df c col = Inr df'"
  by (simp add: setitem_def)

lemma drop_columns_succeeds:
  "map_of df c \<noteq> None \<Longrightarrow> \<exists>df'. drop_columns df [c] = Inr df'"
  by (simp add: drop_columns_def)

lemma pipeline_succeeds:
  assumes ok: "frame_ok df" and cs: "cluster_stage fit_predict df = Inr df1"
  shows "\<exists>df2 out. label_stage df1 = Inr df2 \<and> export df2 = Inr out \<and>
           pipeline fit_predict df = Inr out"
proof -
  from cs obtain labels where lab: "cluster_labels fit_predict df = Inr labels"
      and s1: "setitem df ''persona_cluster'' (map IntCell labels) = Inr df1"
    by (auto simp: cluster_stage_def split: sum.splits)
  from lab obtain S where S: "df_scaled df = Inr S"
    by (auto simp: cluster_labels_def split: sum.splits)
  have f1: "frame_ok df1" "nrows df1 = nrows df" "length labels = nrows df" "df1 \<noteq> []"
    using setitem_frame[OF s1 ok df_scaled_nonempty[OF S]] by simp_all
  have g: "getitem df1 ''persona_cluster'' = Inr (map IntCell labels)"
    using setitem_map_of[OF s1, of "''persona_cluster''"] by (simp add: getitem_def)
  obtain df2 where s2: "setitem df1 ''learning_persona'' (series_map (map IntCell labels) persona_names) = Inr df2"
    using setitem_succeeds[OF f1(4), of "series_map (map IntCell labels) persona_names" "''learning_persona''"] f1
    by (auto simp: series_map_def)
  have l: "label_stage df1 = Inr df2"
    by (simp add: label_stage_def g s2)
  have "map_of df2 ''persona_cluster'' \<noteq> None"
    using setitem_map_of[OF s2, of "''persona_cluster''"] setitem_map_of[OF s1, of "''persona_cluster''"]
    by simp
  then obtain dfo where d: "drop_columns df2 [''persona_cluster''] = Inr dfo"
    using drop_columns_succeeds by blast
  have "export df2 = Inr (to_records dfo)"
    by (simp add: export_def d)
  moreover have "pipeline fit_predict df = Inr (to_records dfo)"
    by (simp add: pipeline_def enrich_def cs l export_def d)
  ultimately show ?thesis
    using l by blast
qed

text \<open>
  C5. Once the clusterer has given every row a cluster index among 0, 1 and 2, the
  labelling and the export cannot fail, and every exported record carries a
  \<^verbatim>\<open>learning_persona\<close> that is one of the three fixed strings: no record is unlabelled.
\<close>

theorem persona_total:
  assumes "frame_ok df" and "cluster_stage fit_predict df = Inr df1"
    and "cluster_labels fit_predict df = Inr labels" and "set labels \<subseteq> {0, 1, 2}"
  shows "\<exists>df2 out. label_stage df1 = Inr df2 \<and> export df2 = Inr out \<and>
           pipeline fit_predict df = Inr out \<and> length out = nrows df \<and>
           (\<forall>r \<in> set out. map_of r ''learning_persona'' \<in>
              {Some (StrCell ''Balanced Average''), Some (StrCell ''High-Skill Achiever''),
               Some (StrCell ''Low Engagement/Struggler'')})"
proof -
  from pipeline_succeeds[OF assms(1,2)] obtain df2 out where
    s: "label_stage df1 = Inr df2" "export df2 = Inr out" "pipeline fit_predict df = Inr out"
    by blast
  have len: "length out = nrows df" "length labels = nrows df"
    using pipeline_shape[OF assms(1) s(3)] assms(3) by auto
  have "map_of r ''learning_persona'' \<in>
              {Some (StrCell ''Balanced Average''), Some (StrCell ''High-Skill Achiever''),
               Some (StrCell ''Low Engagement/Struggler'')}" if "r \<in> set out" for r
  proof -
    from that obtain i where i: "i < length out" "r = out ! i"
      by (auto simp: in_set_conv_nth)
    then have "labels ! i \<in> {0, 1, 2}"
      using assms(4) len by (metis nth_mem subsetD)
    then show ?thesis
      using persona_lookup[OF assms(1) s(3) assms(3), of i] i len
      by (auto simp: persona_names_cases)
  qed
  then show ?thesis
    using s len by blast
qed

lemma example_cluster_stage:
  "cluster_stage example_clusterer (make_frame example_rows) =
     Inr (make_frame example_rows @ [(''persona_cluster'', map IntCell [0, 1, 2, 0, 1, 2])])"
proof -
  have "map_of (make_frame example_rows) ''persona_cluster'' = None"
    by (simp add: make_frame_def)
  moreover have "nrows (make_frame example_rows) = 6"
    by (simp add: nrows_def make_frame_def example_rows_def)
  ultimately show ?thesis
    by (simp add: cluster_stage_def example_labels setitem_def)
qed

theorem persona_total_witness:
  "frame_ok (make_frame example_rows) \<and>
   cluster_labels example_clusterer (make_frame example_rows) = Inr [0, 1, 2, 0, 1, 2] \<and>
   set [0, 1, 2, 0, 1, 2] \<subseteq> {0, 1, 2 :: int} \<and>
   pipeline example_clusterer (make_frame example_rows) = Inr example_records \<and>
   map_of (example_records ! 4) ''learning_persona'' \<in>
     {Some (StrCell ''Balanced Average''), Some (StrCell ''High-Skill Achiever''),
      Some (StrCell ''Low Engagement/Struggler'')}"
proof -
  have v: "set [0, 1, 2, 0, 1, 2] \<subseteq> {0, 1, 2 :: int}"
    by simp
  from persona_total[OF example_frame_ok example_cluster_stage example_labels v]
  have "\<forall>r \<in> set example_records. map_of r ''learning_persona'' \<in>
              {Some (StrCell ''Balanced Average''), Some (StrCell ''High-Skill Achiever''),
               Some (StrCell ''Low Engagement/Struggler'')}"
    by (auto simp: example_pipeline)
  moreover have "example_records ! 4 \<in> set example_records"
    by (simp add: example_records_def)
  ultimately show ?thesis
    using example_frame_ok example_labels example_pipeline v by blast
qed

text \<open>
  C10. The persona of a record depends on its cluster index alone: two rows of one cluster
  index get the same \<^verbatim>\<open>learning_persona\<close>, and two rows of different indices among 0, 1
  and 2 get different ones.
\<close>

theorem persona_by_index:
  assumes "frame_ok df" and "pipeline fit_predict df = Inr out"
    and "cluster_labels fit_predict df = Inr labels" and "i < nrows df" and "j < nrows df"
  shows "(labels ! i = labels ! j \<longrightarrow>
            map_of (out ! i) ''learning_persona'' = map_of (out ! j) ''learning_persona'') \<and>
         (labels ! i \<in> {0, 1, 2} \<and> labels ! j \<in> {0, 1, 2} \<and> labels ! i \<noteq> labels ! j \<longrightarrow>
            map_of (out ! i) ''learning_persona'' \<noteq> map_of (out ! j) ''learning_persona'')"
  using persona_lookup[OF assms(1-3), of i] persona_lookup[OF assms(1-3), of j] assms(4,5)
  by (auto simp: persona_names_cases)

theorem persona_by_index_witness:
  "frame_ok (make_frame example_rows) \<and>
   pipeline example_clusterer (make_frame example_rows) = Inr example_records \<and>
   cluster_labels example_clusterer (make_frame example_rows) = Inr [0, 1, 2, 0, 1, 2] \<and>
   map_of (example_records ! 0) ''learning_persona'' = map_of (example_records ! 3) ''learning_persona'' \<and>
   map_of (example_records ! 0) ''learning_persona'' \<noteq> map_of (example_records ! 1) ''learning_persona''"
proof -
  have n: "nrows (make_frame example_rows) = 6"
    by (simp add: nrows_def make_frame_def example_rows_def)
  have "map_of (example_records ! 0) ''learning_persona'' = map_of (example_records ! 3) ''learning_persona''"
    using persona_by_index[OF example_frame_ok example_pipeline example_labels, of 0 3] n by simp
  moreover have "map_of (example_records ! 0) ''learning_persona'' \<noteq> map_of (example_records ! 1) ''learning_persona''"
    using persona_by_index[OF example_frame_ok example_pipeline example_labels, of 0 1] n by simp
  ultimately show ?thesis
    using example_frame_ok example_pipeline example_labels by blast
qed

subsection \<open>The exported records\<close>

lemma enrich_names:
  assumes en: "enrich fit_predict df = Inr df2"
    and new: "map_of df ''persona_cluster'' = None" "map_of df ''learning_persona'' = None"
  shows "map fst df2 = map fst df @ [''persona_cluster'', ''learning_persona'']"
proof -
  from en obtain df1 where c1: "cluster_stage fit_predict df = Inr df1" and l1: "label_stage df1 = Inr df2"
    by (auto simp: enrich_def split: sum.splits)
  from c1 obtain col1 where s1: "setitem df ''persona_cluster'' col1 = Inr df1"
    by (auto simp: cluster_stage_def split: sum.splits)
  from l1 obtain col2 where s2: "setitem df1 ''learning_persona'' col2 = Inr df2"
    by (auto simp: label_stage_def split: sum.splits)
  have "map fst df1 = map fst df @ [''persona_cluster'']"
    using setitem_names[OF s1] new by simp
  moreover have "map_of df1 ''learning_persona'' = None"
    using setitem_map_of[OF s1, of "''learning_persona''"] new by simp
  ultimately show ?thesis
    using setitem_names[OF s2] by simp
qed

lemma make_frame_ok: "frame_ok (make_frame rows) \<and> nrows (make_frame rows) = length rows"
  by (simp add: frame_ok_def make_frame_def nrows_def)

lemma names_filter:
  "map fst (filter (\<lambda>(k, v). k \<noteq> c) xs) = filter (\<lambda>k. k \<noteq> c) (map fst xs)"
  by (induction xs) auto

text \<open>
  C9. Every record the script exports has exactly the ten fields of the output schema, in
  that order, and no cluster index; it is the row of the enriched table (the table after
  lines 41 and 44) without the field \<^verbatim>\<open>persona_cluster\<close>, every other field as it is in
  the enriched table.
\<close>

theorem export_schema:
  assumes "analysis fit_predict rows = Inr out"
  shows "\<exists>df2. enrich fit_predict (make_frame rows) = Inr df2 \<and> length out = length rows \<and>
           (\<forall>i<length rows.
              map fst (out ! i) = output_schema \<and>
              ''persona_cluster'' \<notin> set (map fst (out ! i)) \<and>
              out ! i = filter (\<lambda>(k, v). k \<noteq> ''persona_cluster'') (to_records df2 ! i))"
proof -
  let ?df = "make_frame rows"
  have ok: "frame_ok ?df" and n: "nrows ?df = length rows"
    using make_frame_ok by simp_all
  from assms have p: "pipeline fit_predict ?df = Inr out"
    by (simp add: analysis_def DataFrame_of_dict_def ok)
  from pipeline_shape[OF ok p] obtain df2 where
    en: "enrich fit_predict ?df = Inr df2" and n2: "nrows df2 = nrows ?df" and len: "length out = nrows ?df"
    and r: "\<forall>i<nrows ?df. out ! i = filter (\<lambda>(k, v). k \<noteq> ''persona_cluster'') (to_records df2 ! i)"
    by blast
  have names: "map fst df2 = map fst ?df @ [''persona_cluster'', ''learning_persona'']"
    by (rule enrich_names[OF en]) (simp_all add: make_frame_def)
  have "map fst (out ! i) = output_schema" if "i < length rows" for i
  proof -
    have "out ! i = filter (\<lambda>(k, v). k \<noteq> ''persona_cluster'') (map (\<lambda>(k, col). (k, col ! i)) df2)"
      using that r n n2 by (simp add: to_records_nth)
    then have "map fst (out ! i) = filter (\<lambda>k. k \<noteq> ''persona_cluster'') (map fst df2)"
      by (simp only: names_filter names_row)
    then show ?thesis
      by (simp add: names make_frame_def output_schema_def)
  qed
  moreover have "''persona_cluster'' \<notin> set output_schema"
    by (simp add: output_schema_def)
  ultimately show ?thesis
    using en len n r by auto
qed

lemma example_analysis: "analysis example_clusterer example_rows = Inr example_records"
  using make_frame_ok[of example_rows] by (simp add: analysis_def DataFrame_of_dict_def example_pipeline)

lemma example_enrich:
  "enrich example_clusterer (make_frame example_rows) =
     Inr (make_frame example_rows @
          [(''persona_cluster'', map IntCell [0, 1, 2, 0, 1, 2]),
           (''learning_persona'',
            map StrCell [''Balanced Average'', ''High-Skill Achiever'', ''Low Engagement/Struggler'',
              ''Balanced Average'', ''High-Skill Achiever'', ''Low Engagement/Struggler''])])"
proof -
  have "map_of (make_frame example_rows) ''learning_persona'' = None"
      "map_of (make_frame example_rows) ''persona_cluster'' = None"
    by (simp_all add: make_frame_def)
  moreover have "nrows (make_frame example_rows) = 6"
    by (simp add: nrows_def make_frame_def example_rows_def)
  moreover have "make_frame example_rows \<noteq> []"
    by (simp add: make_frame_def)
  moreover have "nrows (make_frame example_rows @ [(''persona_cluster'', map IntCell [0, 1, 2, 0, 1, 2])]) = 6"
    by (simp add: nrows_def make_frame_def example_rows_def)
  ultimately show ?thesis
    by (simp add: enrich_def example_cluster_stage label_stage_def getitem_def setitem_def
        series_map_def persona_names_def map_add_def)
qed

theorem export_schema_witness:
  "analysis example_clusterer example_rows = Inr example_records \<and>
   length example_records = length example_rows \<and>
   map fst (example_records ! 2) = output_schema \<and>
   ''persona_cluster'' \<notin> set (map fst (example_records ! 2)) \<and>
   example_records ! 2 =
     filter (\<lambda>(k, v). k \<noteq> ''persona_cluster'')
       (to_records
          (make_frame example_rows @
           [(''persona_cluster'', map IntCell [0, 1, 2, 0, 1, 2]),
            (''learning_persona'',
             map StrCell [''Balanced Average'', ''High-Skill Achiever'', ''Low Engagement/Struggler'',
               ''Balanced Average'', ''High-Skill Achiever'', ''Low Engagement/Struggler''])]) ! 2)"
proof -
  have n: "length example_rows = 6"
    by (simp add: example_rows_def)
  from export_schema[OF example_analysis] have
    "length example_records = length example_rows" and
    "\<forall>i<length example_rows.
       map fst (example_records ! i) = output_schema \<and>
       ''persona_cluster'' \<notin> set (map fst (example_records ! i)) \<and>
       example_records ! i =
         filter (\<lambda>(k, v). k \<noteq> ''persona_cluster'')
           (to_records
              (make_frame example_rows @
               [(''persona_cluster'', map IntCell [0, 1, 2, 0, 1, 2]),
                (''learning_persona'',
                 map StrCell [''Balanced Average'', ''High-Skill Achiever'', ''Low Engagement/Struggler'',
                   ''Balanced Average'', ''High-Skill Achiever'', ''Low Engagement/Struggler''])]) ! i)"
    by (simp_all only: example_enrich sum.inject simp_thms ex_simps) auto
  moreover have "2 < length example_rows"
    by (simp add: n)
  ultimately show ?thesis
    using example_analysis by blast
qed

subsection \<open>A missing feature\<close>

lemma missing_feature_error:
  assumes "filter (\<lambda>c. map_of df c = None) clustering_features \<noteq> []"
  shows "pipeline fit_predict df = Inl (KeyError (filter (\<lambda>c. map_of df c = None) clustering_features))"
  using assms
  by (simp add: pipeline_def enrich_def cluster_stage_def cluster_labels_def df_scaled_def
      getitem_list_def Let_def)

lemma setitem_no_KeyError: "setitem df c col \<noteq> Inl (KeyError m)"
  by (simp add: setitem_def)

lemma fit_transform_no_KeyError: "fit_transform X \<noteq> Inl (KeyError m)"
  by (simp add: fit_transform_def float_columns_def split: option.splits)

lemma present_no_KeyError:
  assumes present: "filter (\<lambda>c. map_of df c = None) clustering_features = []"
    and fp: "\<forall>S m. fit_predict S \<noteq> Inl (KeyError m)"
  shows "pipeline fit_predict df \<noteq> Inl (KeyError m)"
proof
  assume p: "pipeline fit_predict df = Inl (KeyError m)"
  obtain X where X: "getitem_list df clustering_features = Inr X"
    using present by (simp add: getitem_list_def)
  have lab: "cluster_labels fit_predict df \<noteq> Inl (KeyError m)"
    using fp fit_transform_no_KeyError
    by (auto simp: cluster_labels_def df_scaled_def X split: sum.splits)
  have "cluster_stage fit_predict df \<noteq> Inl (KeyError m)"
    using lab setitem_no_KeyError by (auto simp: cluster_stage_def split: sum.splits)
  moreover have "label_stage df1 \<noteq> Inl (KeyError m)" if "cluster_stage fit_predict df = Inr df1" for df1
  proof -
    from that obtain col where "setitem df ''persona_cluster'' col = Inr df1"
      by (auto simp: cluster_stage_def split: sum.splits)
    from setitem_map_of[OF this, of "''persona_cluster''"] show ?thesis
      using setitem_no_KeyError by (auto simp: label_stage_def getitem_def)
  qed
  moreover have "export df2 \<noteq> Inl (KeyError m)"
    if "cluster_stage fit_predict df = Inr df1" "label_stage df1 = Inr df2" for df1 df2
  proof -
    from that(1) obtain col where s1: "setitem df ''persona_cluster'' col = Inr df1"
      by (auto simp: cluster_stage_def split: sum.splits)
    from that(2) obtain col2 where s2: "setitem df1 ''learning_persona'' col2 = Inr df2"
      by (auto simp: label_stage_def split: sum.splits)
    have "map_of df2 ''persona_cluster'' \<noteq> None"
      using setitem_map_of[OF s1, of "''persona_cluster''"] setitem_map_of[OF s2, of "''persona_cluster''"]
      by simp
    then show ?thesis
      by (auto simp: export_def drop_columns_def split: sum.splits)
  qed
  ultimately show False
    using p by (auto simp: pipeline_def enrich_def split: sum.splits)
qed

text \<open>
  C8. When a feature of \<open>clustering_features\<close> is no column of the table, the pipeline
  fails with \<^verbatim>\<open>KeyError\<close> (the schema error of the specification), naming the missing
  features, and it fails so whatever the clusterer is: the clusterer is not reached. When
  every feature is a column, the selection of line 39 succeeds, and the pipeline raises
  no \<^verbatim>\<open>KeyError\<close> unless the clusterer does.
\<close>

theorem missing_feature_fails:
  "((\<exists>c \<in> set clustering_features. map_of df c = None) \<longrightarrow>
      (\<exists>missing. missing \<noteq> [] \<and> set missing \<subseteq> set clustering_features \<and>
         list_all (\<lambda>c. map_of df c = None) missing \<and>
         (\<forall>fit_predict. pipeline fit_predict df = Inl (KeyError missing)))) \<and>
   ((\<forall>c \<in> set clustering_features. map_of df c \<noteq> None) \<longrightarrow>
      (\<exists>X. getitem_list df clustering_features = Inr X) \<and>
      ((\<forall>S m. fit_predict S \<noteq> Inl (KeyError m)) \<longrightarrow>
         (\<forall>m. pipeline fit_predict df \<noteq> Inl (KeyError m))))"
proof (intro conjI impI)
  let ?missing = "filter (\<lambda>c. map_of df c = None) clustering_features"
  assume "\<exists>c \<in> set clustering_features. map_of df c = None"
  then have "?missing \<noteq> []"
    by (auto simp: filter_empty_conv)
  moreover have "set ?missing \<subseteq> set clustering_features" "list_all (\<lambda>c. map_of df c = None) ?missing"
    by (auto simp: list_all_iff)
  ultimately show "\<exists>missing. missing \<noteq> [] \<and> set missing \<subseteq> set clustering_features \<and>
         list_all (\<lambda>c. map_of df c = None) missing \<and>
         (\<forall>fit_predict. pipeline fit_predict df = Inl (KeyError missing))"
    using missing_feature_error[of df] by blast
next
  assume "\<forall>c \<in> set clustering_features. map_of df c \<noteq> None"
  then have e: "filter (\<lambda>c. map_of df c = None) clustering_features = []"
    by (auto simp: filter_empty_conv)
  then show "\<exists>X. getitem_list df clustering_features = Inr X"
    by (simp add: getitem_list_def)
  assume "\<forall>S m. fit_predict S \<noteq> Inl (KeyError m)"
  with e show "\<forall>m. pipeline fit_predict df \<noteq> Inl (KeyError m)"
    using present_no_KeyError by blast
qed

text \<open>
  The table without \<^verbatim>\<open>focus\<close> fails the same way with two different clusterers; the
  table of the six students passes the selection and is exported.
\<close>

theorem missing_feature_fails_witness:
  "map_of example_without_focus ''focus'' = None \<and>
   pipeline example_clusterer example_without_focus = Inl (KeyError [''focus'']) \<and>
   pipeline (\<lambda>X. Inr []) example_without_focus = pipeline example_clusterer example_without_focus \<and>
   (\<exists>X. getitem_list (make_frame example_rows) clustering_features = Inr X) \<and>
   pipeline example_clusterer (make_frame example_rows) = Inr example_records"
proof -
  have a: "map_of example_without_focus ''focus'' = None"
    by (simp add: example_without_focus_def make_frame_def)
  then have "\<exists>c \<in> set clustering_features. map_of example_without_focus c = None"
    by (simp add: clustering_features_def)
  with missing_feature_fails[of example_without_focus]
  obtain missing where m: "\<forall>fit_predict. pipeline fit_predict example_without_focus = Inl (KeyError missing)"
    by blast
  have b: "pipeline (\<lambda>X. Inr []) example_without_focus = pipeline example_clusterer example_without_focus"
    using m by simp
  have c: "pipeline example_clusterer example_without_focus = Inl (KeyError [''focus''])"
    by (simp add: pipeline_def enrich_def cluster_stage_def cluster_labels_def df_scaled_def
      getitem_list_def Let_def example_without_focus_def make_frame_def clustering_features_def)
  have "\<forall>c \<in> set clustering_features. map_of (make_frame example_rows) c \<noteq> None"
    by (simp add: clustering_features_def make_frame_def)
  with missing_feature_fails[of "make_frame example_rows"]
  have d: "\<exists>X. getitem_list (make_frame example_rows) clustering_features = Inr X"
    by blast
  show ?thesis
    using a b c d example_pipeline by blast
qed

subsection \<open>The persona and the composite score\<close>

lemma swapped_init:
  "swapped_vectors () 3 example_vectors =
     ([[23 / 45, 26 / 51, 19 / 41, 29 / 51, 13 / 27], [43 / 45, 16 / 17, 1, 1, 26 / 27],
       [0, 0, 0, 0, 0]], ())"
  by (simp add: swapped_vectors_def example_vectors_def)

lemma swapped_lloyd:
  "lloyd [[23 / 45, 26 / 51, 19 / 41, 29 / 51, 13 / 27], [43 / 45, 16 / 17, 1, 1, 26 / 27],
          [0, 0, 0, 0, 0]] 300 example_vectors =
     ([1, 0, 2, 1, 0, 2],
      [[22 / 45, 49 / 102, 20 / 41, 9 / 17, 25 / 54],
       [44 / 45, 33 / 34, 79 / 82, 50 / 51, 53 / 54],
       [1 / 30, 1 / 34, 3 / 82, 1 / 34, 1 / 54]], True)"
  by (simp add: lloyd_eval example_vectors_def)

lemma swapped_restarts:
  "restarts swapped_vectors 3 300 n () example_vectors =
     (replicate n ([1, 0, 2, 1, 0, 2],
      [[22 / 45, 49 / 102, 20 / 41, 9 / 17, 25 / 54],
       [44 / 45, 33 / 34, 79 / 82, 50 / 51, 53 / 54],
       [1 / 30, 1 / 34, 3 / 82, 1 / 34, 1 / 54]], True), ())"
  by (induction n) (simp_all add: swapped_init swapped_lloyd)

lemma swapped_clustered: "swapped_clusterer example_vectors = Inr [1, 0, 2, 1, 0, 2]"
  using best_run_replicate[of example_vectors 9]
  by (simp add: swapped_clusterer_def KMeans_fit_predict_def swapped_restarts predict_def list_all_iff)

lemma swapped_labels:
  "cluster_labels swapped_clusterer (make_frame example_rows) = Inr [1, 0, 2, 1, 0, 2]"
  by (simp add: cluster_labels_def example_scaled swapped_clustered)

lemma swapped_pipeline:
  "\<exists>out. pipeline swapped_clusterer (make_frame example_rows) = Inr out"
proof -
  have "map_of (make_frame example_rows) ''persona_cluster'' = None"
    by (simp add: make_frame_def)
  moreover have "nrows (make_frame example_rows) = 6"
    by (simp add: nrows_def make_frame_def example_rows_def)
  ultimately have "\<exists>df1. cluster_stage swapped_clusterer (make_frame example_rows) = Inr df1"
    by (simp add: cluster_stage_def swapped_labels setitem_def)
  then show ?thesis
    using pipeline_succeeds[OF example_frame_ok] by blast
qed

lemmas composite_eval = cluster_composite_def composite_def mean_vec_def members_def
  clustering_features_def example_vectors_def

lemma example_composites:
  "cluster_composite example_vectors [0, 1, 2, 0, 1, 2] 0 = 917173 / 940950"
  "cluster_composite example_vectors [0, 1, 2, 0, 1, 2] 1 = 230482 / 470475"
  "cluster_composite example_vectors [0, 1, 2, 0, 1, 2] 2 = 27713 / 940950"
  by (simp_all add: composite_eval)

lemma swapped_composites:
  "cluster_composite example_vectors [1, 0, 2, 1, 0, 2] 0 = 230482 / 470475"
  "cluster_composite example_vectors [1, 0, 2, 1, 0, 2] 1 = 917173 / 940950"
  "cluster_composite example_vectors [1, 0, 2, 1, 0, 2] 2 = 27713 / 940950"
  by (simp_all add: composite_eval)

lemma rank_persona_ordered:
  assumes "cluster_composite X labels 2 < cluster_composite X labels 0"
    and "cluster_composite X labels 0 < cluster_composite X labels 1"
  shows "rank_persona X labels 0 = ''Balanced Average''"
    and "rank_persona X labels 1 = ''High-Skill Achiever''"
    and "rank_persona X labels 2 = ''Low Engagement/Struggler''"
  using assms by (simp_all add: rank_persona_def)

text \<open>
  C1, as the code has it. The persona of a record is read from the fixed table
  \<open>persona_names\<close> at the cluster index of the record: index 0 is
  \<^verbatim>\<open>Balanced Average\<close>, index 1 is \<^verbatim>\<open>High-Skill Achiever\<close>, index 2 is
  \<^verbatim>\<open>Low Engagement/Struggler\<close>, whatever the composite scores of the clusters are. The
  persona is the one of the rank of the composite score when the clusterer numbers the
  clusters so that cluster 1 has the highest composite score and cluster 2 the lowest.
\<close>

theorem persona_by_table:
  assumes "frame_ok df" and "pipeline fit_predict df = Inr out"
    and "cluster_labels fit_predict df = Inr labels" and "df_scaled df = Inr X"
    and "i < nrows df" and "labels ! i \<in> {0, 1, 2}"
  shows "map_of (out ! i) ''learning_persona'' =
           Some (StrCell (if labels ! i = 0 then ''Balanced Average''
                          else if labels ! i = 1 then ''High-Skill Achiever''
                          else ''Low Engagement/Struggler'')) \<and>
         (cluster_composite X labels 2 < cluster_composite X labels 0 \<and>
          cluster_composite X labels 0 < cluster_composite X labels 1 \<longrightarrow>
            map_of (out ! i) ''learning_persona'' = Some (StrCell (rank_persona X labels (labels ! i))))"
proof -
  have a: "map_of (out ! i) ''learning_persona'' =
           Some (StrCell (if labels ! i = 0 then ''Balanced Average''
                          else if labels ! i = 1 then ''High-Skill Achiever''
                          else ''Low Engagement/Struggler''))"
    using persona_lookup[OF assms(1-3,5)] assms(6) by (simp add: persona_names_cases)
  have "map_of (out ! i) ''learning_persona'' = Some (StrCell (rank_persona X labels (labels ! i)))"
    if "cluster_composite X labels 2 < cluster_composite X labels 0"
      "cluster_composite X labels 0 < cluster_composite X labels 1"
    using a assms(6) rank_persona_ordered[OF that] by auto
  with a show ?thesis
    by blast
qed

text \<open>
  With the first two initial centroids exchanged, cluster 1 is the cluster of the highest
  composite score, and the first student is a \<^verbatim>\<open>High-Skill Achiever\<close>.
\<close>

theorem persona_by_table_witness:
  "\<exists>out. frame_ok (make_frame example_rows) \<and>
     pipeline swapped_clusterer (make_frame example_rows) = Inr out \<and>
     cluster_labels swapped_clusterer (make_frame example_rows) = Inr [1, 0, 2, 1, 0, 2] \<and>
     df_scaled (make_frame example_rows) = Inr example_vectors \<and>
     cluster_composite example_vectors [1, 0, 2, 1, 0, 2] 2 < cluster_composite example_vectors [1, 0, 2, 1, 0, 2] 0 \<and>
     cluster_composite example_vectors [1, 0, 2, 1, 0, 2] 0 < cluster_composite example_vectors [1, 0, 2, 1, 0, 2] 1 \<and>
     map_of (out ! 0) ''learning_persona'' = Some (StrCell ''High-Skill Achiever'') \<and>
     map_of (out ! 0) ''learning_persona'' = Some (StrCell (rank_persona example_vectors [1, 0, 2, 1, 0, 2] 1))"
proof -
  obtain out where p: "pipeline swapped_clusterer (make_frame example_rows) = Inr out"
    using swapped_pipeline by blast
  have n: "0 < nrows (make_frame example_rows)"
    by (simp add: nrows_def make_frame_def example_rows_def)
  have l: "[1, 0, 2, 1, 0, 2] ! 0 \<in> {0, 1, 2 :: int}"
    by simp
  have c: "cluster_composite example_vectors [1, 0, 2, 1, 0, 2] 2 < cluster_composite example_vectors [1, 0, 2, 1, 0, 2] 0"
      "cluster_composite example_vectors [1, 0, 2, 1, 0, 2] 0 < cluster_composite example_vectors [1, 0, 2, 1, 0, 2] 1"
    by (simp_all add: swapped_composites)
  note t = persona_by_table[OF example_frame_ok p swapped_labels example_scaled n l]
  have a: "map_of (out ! 0) ''learning_persona'' = Some (StrCell ''High-Skill Achiever'')"
    using t by simp
  have "map_of (out ! 0) ''learning_persona'' =
      Some (StrCell (rank_persona example_vectors [1, 0, 2, 1, 0, 2] ([1, 0, 2, 1, 0, 2] ! 0)))"
    using t c by blast
  then have b: "map_of (out ! 0) ''learning_persona'' =
      Some (StrCell (rank_persona example_vectors [1, 0, 2, 1, 0, 2] 1))"
    by simp
  from a b example_frame_ok p swapped_labels example_scaled c show ?thesis
    by blast
qed

text \<open>
  The rank policy does not hold on the run on six students: the first student is in cluster 0, the
  cluster of the highest composite score, which the policy of the specification names
  \<^verbatim>\<open>High-Skill Achiever\<close>, and the exported persona is \<^verbatim>\<open>Balanced Average\<close>.
\<close>

theorem persona_rank_counterexample:
  "pipeline example_clusterer (make_frame example_rows) = Inr example_records \<and>
   cluster_labels example_clusterer (make_frame example_rows) = Inr [0, 1, 2, 0, 1, 2] \<and>
   df_scaled (make_frame example_rows) = Inr example_vectors \<and>
   cluster_composite example_vectors [0, 1, 2, 0, 1, 2] 1 < cluster_composite example_vectors [0, 1, 2, 0, 1, 2] 0 \<and>
   cluster_composite example_vectors [0, 1, 2, 0, 1, 2] 2 < cluster_composite example_vectors [0, 1, 2, 0, 1, 2] 0 \<and>
   rank_persona example_vectors [0, 1, 2, 0, 1, 2] 0 = ''High-Skill Achiever'' \<and>
   map_of (example_records ! 0) ''learning_persona'' = Some (StrCell ''Balanced Average'')"
proof -
  have "rank_persona example_vectors [0, 1, 2, 0, 1, 2] 0 = ''High-Skill Achiever''"
    by (simp add: rank_persona_def example_composites)
  moreover have "map_of (example_records ! 0) ''learning_persona'' = Some (StrCell ''Balanced Average'')"
    by (simp add: example_records_def example_record_def)
  ultimately show ?thesis
    by (simp add: example_pipeline example_labels example_scaled example_composites)
qed

subsection \<open>The scaled features\<close>



lemma minmax_column_length: "length (minmax_column col) = length col"
  by (cases col) (simp_all add: minmax_column_def Let_def)










subsection \<open>The refinement of the centroids\<close>
















subsection \<open>The score in the exported records\<close>

text \<open>
  C6. The assessment score of every student lies between 0 and 100, whatever the raw
  score is: the raw score is rounded, then clipped into the range (a raw score outside the
  range gives the nearest bound, and no raw score is refused), then converted to an
  integer. Every exported record carries the score of its student, so the bounds hold for
  all exported records.
\<close>

theorem assessment_score_range:
  "0 \<le> row_score r \<and> row_score r \<le> 100 \<and>
   of_int (row_score r) =
     max 0 (min 100 (np_round (score_raw (comprehension r) (attention r) (focus r) (retention r)
        (engagement_time r) (noise r)))) \<and>
   (analysis fit_predict rows = Inr out \<longrightarrow>
      (\<forall>i<length rows.
         \<exists>s. map_of (out ! i) ''assessment_score'' = Some (IntCell s) \<and> s = row_score (rows ! i) \<and>
             0 \<le> s \<and> s \<le> 100))"
proof -
  have range: "0 \<le> row_score r \<and> row_score r \<le> 100 \<and>
      of_int (row_score r) =
        max 0 (min 100 (np_round (score_raw (comprehension r) (attention r) (focus r) (retention r)
          (engagement_time r) (noise r))))" for r
    unfolding row_score_def by (rule assessment_score_clipped)
  have "\<exists>s. map_of (out ! i) ''assessment_score'' = Some (IntCell s) \<and> s = row_score (rows ! i) \<and>
             0 \<le> s \<and> s \<le> 100"
    if a: "analysis fit_predict rows = Inr out" and i: "i < length rows" for i
  proof -
    let ?df = "make_frame rows"
    have ok: "frame_ok ?df" and n: "nrows ?df = length rows"
      using make_frame_ok by simp_all
    from a have p: "pipeline fit_predict ?df = Inr out"
      by (simp add: analysis_def DataFrame_of_dict_def ok)
    from pipeline_shape[OF ok p] obtain labels df2 where
      n2: "nrows df2 = nrows ?df"
      and m: "\<forall>k. map_of df2 k =
              (if k = ''learning_persona'' then Some (series_map (map IntCell labels) persona_names)
               else if k = ''persona_cluster'' then Some (map IntCell labels)
               else map_of ?df k)"
      and r: "\<forall>i<nrows ?df. out ! i = filter (\<lambda>(k, v). k \<noteq> ''persona_cluster'') (to_records df2 ! i)"
      by blast
    have "map_of (out ! i) ''assessment_score'' =
        map_option (\<lambda>col. col ! i) (map_of ?df ''assessment_score'')"
      using r m n n2 i record_lookup[of i df2 "''persona_cluster''" "''assessment_score''"] by simp
    also have "\<dots> = Some (IntCell (row_score (rows ! i)))"
      using i by (simp add: make_frame_def)
    finally show ?thesis
      using range[of "rows ! i"] by simp
  qed
  with range[of r] show ?thesis
    by blast
qed

text \<open>
  The first of the six students has a raw score of 129.55: the score is 100, and the
  first exported record carries it.
\<close>

theorem assessment_score_range_witness:
  "analysis example_clusterer example_rows = Inr example_records \<and>
   score_raw 95 90 88 92 (37 / 2) 1 = 2591 / 20 \<and>
   row_score (example_rows ! 0) = 100 \<and>
   map_of (example_records ! 0) ''assessment_score'' = Some (IntCell 100)"
proof -
  have raw: "score_raw 95 90 88 92 (37 / 2) 1 = 2591 / 20"
    by (simp add: score_raw_def weights_def)
  have s: "row_score (example_rows ! 0) = 100"
    by (simp add: example_rows_def row_score_def raw assessment_score_def np_round_def
        round_half_even_def np_clip_def astype_int_def Let_def)
  have i: "0 < length example_rows"
    by (simp add: example_rows_def)
  from assessment_score_range[of "example_rows ! 0" example_clusterer example_rows example_records]
  have "\<forall>i<length example_rows.
         \<exists>s. map_of (example_records ! i) ''assessment_score'' = Some (IntCell s) \<and>
             s = row_score (example_rows ! i) \<and> 0 \<le> s \<and> s \<le> 100"
    using example_analysis by blast
  from this[rule_format, OF i] s
  have "map_of (example_records ! 0) ''assessment_score'' = Some (IntCell 100)"
    by simp
  with example_analysis raw s show ?thesis
    by simp
qed

subsection \<open>The result of the clusterer\<close>


































end
